theory Spec2Isabelle
  imports Main "HOL-Library.Sublist" "HOL-Library.Multiset"
begin

section \<open>MoodChef: the recipe recommendation handler\<close>

text \<open>
  A shallow embedding of the backend's \<^verbatim>\<open>POST /api/get-recipes\<close> handler: the
  Mongoose schema of a recipe, the two store queries, the scoring of the fetched
  recipes, the sort and the slice. Strings are lists of 8-bit code units
  (Latin-1), which covers every character of the seeded catalog. The request body is
  taken as typed: \<^verbatim>\<open>mood\<close> is a string or absent, \<^verbatim>\<open>ingredients\<close> is an array of
  strings or absent.
\<close>

subsection \<open>Data model\<close>

text \<open>The fields of \<^verbatim>\<open>recipeSchema\<close>.\<close>

record recipe =
  name :: string
  moodTags :: "string list"
  ingredients :: "string list"
  description :: string
  cookingTime :: string
  instructions :: string
  moodDescription :: string

text \<open>
  An element of \<^verbatim>\<open>scoredRecipes\<close>: the spread of \<^verbatim>\<open>recipe.toObject()\<close> followed by
  the two derived fields. The identifier and the timestamps the store adds to a
  document are carried along unchanged and are left out.
\<close>

record scored_recipe = recipe +
  matchScore :: nat
  matchingIngredients :: "string list"

subsection \<open>Built-ins of the language\<close>

text \<open>
  \<^verbatim>\<open>String.prototype.toLowerCase\<close> on code units below 256: the letters A to Z and
  the accented capitals 0xC0 to 0xDE (the multiplication sign 0xD7 apart) move up by 32,
  every other unit stays.
\<close>

definition lower_unit :: "char \<Rightarrow> char" where
  "lower_unit c =
     (let n = (of_char c :: nat) in
      if (65 \<le> n \<and> n \<le> 90) \<or> (192 \<le> n \<and> n \<le> 222 \<and> n \<noteq> 215)
      then char_of (n + 32) else c)"

definition toLowerCase :: "string \<Rightarrow> string" where
  "toLowerCase s = map lower_unit s"

text \<open>\<^verbatim>\<open>Array.prototype.includes\<close> on strings: membership by exact equality.\<close>

definition array_includes :: "'a list \<Rightarrow> 'a \<Rightarrow> bool" where
  "array_includes xs x = (x \<in> set xs)"

text \<open>\<^verbatim>\<open>Array.prototype.slice(b, e)\<close> for non-negative bounds.\<close>

definition slice :: "nat \<Rightarrow> nat \<Rightarrow> 'a list \<Rightarrow> 'a list" where
  "slice b e xs = take (e - b) (drop b xs)"

text \<open>
  \<^verbatim>\<open>Array.prototype.sort(cmp)\<close>: a stable sort by a comparator whose sign orders two
  elements (a positive value puts the second argument first, zero keeps the two in
  their order). The language requires the sort to be stable; engines older than that
  requirement were stable on arrays of at most ten elements, and the handler sorts at
  most ten. The result of a stable sort does not depend on the algorithm (lemma
  \<open>stable_sort_unique\<close> below), so the sort is written as an insertion sort.
\<close>

fun insert_cmp :: "('a \<Rightarrow> 'a \<Rightarrow> int) \<Rightarrow> 'a \<Rightarrow> 'a list \<Rightarrow> 'a list" where
  "insert_cmp cmp x [] = [x]"
| "insert_cmp cmp x (y # ys) =
     (if cmp x y \<le> 0 then x # y # ys else y # insert_cmp cmp x ys)"

definition sort_cmp :: "('a \<Rightarrow> 'a \<Rightarrow> int) \<Rightarrow> 'a list \<Rightarrow> 'a list" where
  "sort_cmp cmp xs = foldr (insert_cmp cmp) xs []"

subsection \<open>The store\<close>

text \<open>
  The filters the handler builds: \<^verbatim>\<open>{ field: { $in: values } }\<close> on an array field
  holds when the array has an element among the values; \<^verbatim>\<open>{ $and: [...] }\<close> holds
  when every member does.
\<close>

datatype field = MoodTags | Ingredients

datatype query_filter = In field "string list" | And "query_filter list"

fun get_field :: "field \<Rightarrow> recipe \<Rightarrow> string list" where
  "get_field MoodTags r = moodTags r"
| "get_field Ingredients r = ingredients r"

fun matches :: "query_filter \<Rightarrow> recipe \<Rightarrow> bool" where
  "matches (In f vs) r = list_ex (array_includes vs) (get_field f r)"
| "matches (And fs) r = list_all (\<lambda>q. matches q r) fs"

text \<open>
  The collection: its documents in the order the store returns them, whether it can
  be reached, and the queries issued so far (filter and limit).
  \<^verbatim>\<open>Recipe.find(q).limit(n)\<close> yields the first \<open>n\<close> matching documents, or throws
  when the store cannot be reached. The handler only reads the collection; the log
  of queries is what lets a property say which queries were issued, and in what order.
\<close>

record db =
  docs :: "recipe list"
  reachable :: bool
  issued :: "(query_filter \<times> nat) list"

definition find_limit :: "query_filter \<Rightarrow> nat \<Rightarrow> db \<Rightarrow> recipe list option \<times> db" where
  "find_limit q n s =
     (if reachable s then Some (take n (filter (matches q) (docs s))) else None,
      s\<lparr>issued := issued s @ [(q, n)]\<rparr>)"

subsection \<open>The handler\<close>

datatype body = Error string | Recipes "scored_recipe list"

record response =
  status :: nat
  json :: body

definition scoreRecipe :: "string list \<Rightarrow> recipe \<Rightarrow> scored_recipe" where
  "scoreRecipe wanted r =
     (let matching = filter (\<lambda>ingredient. array_includes wanted ingredient) (ingredients r) in
      \<lparr>name = name r, moodTags = moodTags r, ingredients = ingredients r,
       description = description r, cookingTime = cookingTime r,
       instructions = instructions r, moodDescription = moodDescription r,
       matchScore = length matching, matchingIngredients = matching\<rparr>)"

definition scoredRecipes :: "string list \<Rightarrow> recipe list \<Rightarrow> scored_recipe list" where
  "scoredRecipes wanted recipes = map (scoreRecipe wanted) recipes"

definition by_score :: "scored_recipe \<Rightarrow> scored_recipe \<Rightarrow> int" where
  "by_score a b = int (matchScore b) - int (matchScore a)"

definition topRecipes :: "scored_recipe list \<Rightarrow> scored_recipe list" where
  "topRecipes scored = slice 0 3 (sort_cmp by_score scored)"

definition query :: "string \<Rightarrow> string list \<Rightarrow> query_filter" where
  "query mood wanted = And [In MoodTags [toLowerCase mood], In Ingredients wanted]"

definition broadQuery :: "string list \<Rightarrow> query_filter" where
  "broadQuery wanted = In Ingredients wanted"

text \<open>
  The two fetches: the fallback is issued exactly when the first fetch came back
  empty. \<open>None\<close> is the exception of a store that cannot be reached.
\<close>

definition fetch :: "string \<Rightarrow> string list \<Rightarrow> db \<Rightarrow> recipe list option \<times> db" where
  "fetch mood wanted s =
     (case find_limit (query mood wanted) 10 s of
        (None, s1) \<Rightarrow> (None, s1)
      | (Some recipes, s1) \<Rightarrow>
          if length recipes = 0 then find_limit (broadQuery wanted) 10 s1
          else (Some recipes, s1))"

definition bad_request :: response where
  "bad_request = \<lparr>status = 400, json = Error ''Mood and ingredients are required''\<rparr>"

definition fetch_failed :: response where
  "fetch_failed = \<lparr>status = 500, json = Error ''Failed to fetch recipes''\<rparr>"

definition ok :: "scored_recipe list \<Rightarrow> response" where
  "ok rs = \<lparr>status = 200, json = Recipes rs\<rparr>"

text \<open>
  The handler. \<^verbatim>\<open>!mood || !ingredients || ingredients.length === 0\<close> holds for an
  absent field, for the empty string and for the empty array; that request is answered
  with status 400 before the store is touched. An exception of the store is caught and
  answered with status 500.
\<close>

definition get_recipes :: "string option \<Rightarrow> string list option \<Rightarrow> db \<Rightarrow> response \<times> db" where
  "get_recipes mood wanted s =
     (case (mood, wanted) of
        (Some m, Some ws) \<Rightarrow>
          if m = [] \<or> length ws = 0 then (bad_request, s)
          else
            (case fetch m ws s of
               (None, s') \<Rightarrow> (fetch_failed, s')
             | (Some recipes, s') \<Rightarrow> (ok (topRecipes (scoredRecipes ws recipes)), s'))
      | _ \<Rightarrow> (bad_request, s))"

subsection \<open>The seeded catalog\<close>

text \<open>The documents \<^verbatim>\<open>/api/seed-recipes\<close> inserts, in the order of \<^verbatim>\<open>sampleRecipes\<close>.\<close>

definition comfort_mac_and_cheese :: recipe where
  "comfort_mac_and_cheese =
     \<lparr>name = ''Comfort Mac and Cheese'',
      moodTags = [''sad'', ''stressed''],
      ingredients = [''pasta'', ''cheese'', ''milk'', ''butter'', ''flour''],
      description = ''Creamy, comforting mac and cheese that warms your heart and soul.'',
      cookingTime = ''25 minutes'',
      instructions = ''1. Cook pasta according to package directions. 2. Make cheese sauce with butter, flour, milk, and cheese. 3. Mix pasta with sauce. 4. Bake until golden and bubbly.'',
      moodDescription = ''Perfect comfort food to lift your spirits''\<rparr>"

definition rainbow_veggie_stir_fry :: recipe where
  "rainbow_veggie_stir_fry =
     \<lparr>name = ''Rainbow Veggie Stir-Fry'',
      moodTags = [''happy'', ''bored''],
      ingredients = [''bell pepper'', ''broccoli'', ''carrot'', ''garlic'', ''ginger'', ''rice''],
      description = ''Colorful and vibrant stir-fry packed with fresh vegetables and bold flavors.'',
      cookingTime = ''15 minutes'',
      instructions = ''1. Heat oil in wok. 2. Add garlic and ginger. 3. Stir-fry vegetables until crisp-tender. 4. Season with soy sauce and serve over rice.'',
      moodDescription = ''Bright colors and fresh flavors to match your happy mood''\<rparr>"

definition soothing_tomato_basil_soup :: recipe where
  "soothing_tomato_basil_soup =
     \<lparr>name = ''Soothing Tomato Basil Soup'',
      moodTags = [''stressed'', ''sick''],
      ingredients = [''tomato'', ''onion'', ''garlic'', ''herbs'', ''milk''],
      description = ''Warm and soothing soup that calms your nerves and nourishes your body.'',
      cookingTime = ''30 minutes'',
      instructions = ''1. Saut'' @ [CHR 0xE9] @ '' onion and garlic. 2. Add tomatoes and herbs. 3. Simmer and blend until smooth. 4. Stir in milk and season to taste.'',
      moodDescription = ''Gentle and calming, perfect for stress relief''\<rparr>"

definition quick_avocado_toast :: recipe where
  "quick_avocado_toast =
     \<lparr>name = ''Quick Avocado Toast'',
      moodTags = [''lazy'', ''happy''],
      ingredients = [''bread'', ''cheese'', ''tomato'', ''herbs''],
      description = ''Simple and satisfying toast that requires minimal effort but maximum flavor.'',
      cookingTime = ''5 minutes'',
      instructions = ''1. Toast bread. 2. Mash avocado with seasonings. 3. Spread on toast. 4. Top with tomato and herbs.'',
      moodDescription = ''Easy and quick when you don'' @ [CHR 0x27] @ ''t feel like cooking''\<rparr>"

definition romantic_mushroom_risotto :: recipe where
  "romantic_mushroom_risotto =
     \<lparr>name = ''Romantic Mushroom Risotto'',
      moodTags = [''love'', ''happy''],
      ingredients = [''rice'', ''mushroom'', ''onion'', ''garlic'', ''cheese''],
      description = ''Creamy, elegant risotto perfect for a romantic dinner at home.'',
      cookingTime = ''45 minutes'',
      instructions = ''1. Saut'' @ [CHR 0xE9] @ '' mushrooms and set aside. 2. Cook onion and garlic. 3. Add rice and cook until creamy. 4. Stir in mushrooms and cheese.'',
      moodDescription = ''Elegant and romantic, perfect for date night''\<rparr>"

definition healing_ginger_lentil_soup :: recipe where
  "healing_ginger_lentil_soup =
     \<lparr>name = ''Healing Ginger Lentil Soup'',
      moodTags = [''sick'', ''stressed''],
      ingredients = [''lentils'', ''ginger'', ''garlic'', ''onion'', ''carrot''],
      description = ''Nourishing soup packed with healing spices and protein-rich lentils.'',
      cookingTime = ''35 minutes'',
      instructions = ''1. Saut'' @ [CHR 0xE9] @ '' aromatics. 2. Add lentils and water. 3. Simmer until tender. 4. Season with healing spices.'',
      moodDescription = ''Healing and nourishing for when you'' @ [CHR 0x27] @ ''re under the weather''\<rparr>"

definition spicy_chickpea_curry :: recipe where
  "spicy_chickpea_curry =
     \<lparr>name = ''Spicy Chickpea Curry'',
      moodTags = [''bored'', ''happy''],
      ingredients = [''chickpeas'', ''tomato'', ''onion'', ''garlic'', ''ginger'', ''spices''],
      description = ''Bold and flavorful curry that awakens your taste buds and fights boredom.'',
      cookingTime = ''40 minutes'',
      instructions = ''1. Build spice base with onion, garlic, ginger. 2. Add tomatoes and spices. 3. Add chickpeas and simmer. 4. Garnish with fresh herbs.'',
      moodDescription = ''Exciting flavors to spice up your day''\<rparr>"

definition lazy_day_pasta_primavera :: recipe where
  "lazy_day_pasta_primavera =
     \<lparr>name = ''Lazy Day Pasta Primavera'',
      moodTags = [''lazy'', ''happy''],
      ingredients = [''pasta'', ''broccoli'', ''bell pepper'', ''garlic'', ''olive oil''],
      description = ''Simple pasta dish with fresh vegetables that'' @ [CHR 0x27] @ ''s easy to make but delicious.'',
      cookingTime = ''20 minutes'',
      instructions = ''1. Cook pasta and vegetables together. 2. Toss with olive oil and garlic. 3. Season simply. 4. Serve immediately.'',
      moodDescription = ''Minimal effort, maximum satisfaction''\<rparr>"

definition mood_boosting_smoothie_bowl :: recipe where
  "mood_boosting_smoothie_bowl =
     \<lparr>name = ''Mood-Boosting Smoothie Bowl'',
      moodTags = [''sad'', ''happy''],
      ingredients = [''oats'', ''milk'', ''yogurt''],
      description = ''Creamy and nutritious bowl topped with mood-boosting ingredients.'',
      cookingTime = ''10 minutes'',
      instructions = ''1. Blend frozen fruits with yogurt. 2. Pour into bowl. 3. Top with granola and fresh fruits. 4. Drizzle with honey.'',
      moodDescription = ''Nutritious and colorful to brighten your mood''\<rparr>"

definition comforting_potato_soup :: recipe where
  "comforting_potato_soup =
     \<lparr>name = ''Comforting Potato Soup'',
      moodTags = [''sad'', ''stressed'', ''sick''],
      ingredients = [''potato'', ''onion'', ''garlic'', ''milk'', ''butter''],
      description = ''Creamy, hearty soup that provides ultimate comfort and warmth.'',
      cookingTime = ''30 minutes'',
      instructions = ''1. Saut'' @ [CHR 0xE9] @ '' onion and garlic. 2. Add potatoes and broth. 3. Simmer until tender. 4. Blend partially and add cream.'',
      moodDescription = ''Warm and comforting, like a hug in a bowl''\<rparr>"

definition energizing_quinoa_salad :: recipe where
  "energizing_quinoa_salad =
     \<lparr>name = ''Energizing Quinoa Salad'',
      moodTags = [''happy'', ''bored''],
      ingredients = [''quinoa'', ''cucumber'', ''tomato'', ''herbs'', ''olive oil''],
      description = ''Fresh and energizing salad packed with protein and vibrant vegetables.'',
      cookingTime = ''25 minutes'',
      instructions = ''1. Cook quinoa and let cool. 2. Chop fresh vegetables. 3. Mix with herbs and dressing. 4. Let flavors meld before serving.'',
      moodDescription = ''Fresh and energizing to boost your vitality''\<rparr>"

definition love_filled_stuffed_bell_peppers :: recipe where
  "love_filled_stuffed_bell_peppers =
     \<lparr>name = ''Love-Filled Stuffed Bell Peppers'',
      moodTags = [''love'', ''happy''],
      ingredients = [''bell pepper'', ''rice'', ''mushroom'', ''cheese'', ''herbs''],
      description = ''Beautiful stuffed peppers that show love through every colorful bite.'',
      cookingTime = ''50 minutes'',
      instructions = ''1. Hollow out bell peppers. 2. Prepare rice and mushroom filling. 3. Stuff peppers and top with cheese. 4. Bake until tender.'',
      moodDescription = ''Made with love, perfect for sharing with someone special''\<rparr>"

definition simple_herb_omelette :: recipe where
  "simple_herb_omelette =
     \<lparr>name = ''Simple Herb Omelette'',
      moodTags = [''lazy'', ''happy''],
      ingredients = [''eggs'', ''herbs'', ''cheese'', ''butter''],
      description = ''Fluffy omelette with fresh herbs that'' @ [CHR 0x27] @ ''s quick and satisfying.'',
      cookingTime = ''8 minutes'',
      instructions = ''1. Beat eggs with herbs. 2. Heat butter in pan. 3. Cook omelette until set. 4. Add cheese and fold.'',
      moodDescription = ''Quick and easy comfort food''\<rparr>"

definition warming_golden_turmeric_rice :: recipe where
  "warming_golden_turmeric_rice =
     \<lparr>name = ''Warming Golden Turmeric Rice'',
      moodTags = [''sick'', ''stressed''],
      ingredients = [''rice'', ''turmeric'', ''ginger'', ''garlic'', ''coconut oil''],
      description = ''Anti-inflammatory golden rice that soothes and heals from within.'',
      cookingTime = ''25 minutes'',
      instructions = ''1. Heat coconut oil and add spices. 2. Add rice and toast briefly. 3. Add water and simmer. 4. Let steam and fluff.'',
      moodDescription = ''Healing golden goodness to restore your energy''\<rparr>"

definition adventure_spice_mix_roasted_vegetables :: recipe where
  "adventure_spice_mix_roasted_vegetables =
     \<lparr>name = ''Adventure Spice Mix Roasted Vegetables'',
      moodTags = [''bored'', ''happy''],
      ingredients = [''potato'', ''carrot'', ''broccoli'', ''spices'', ''olive oil''],
      description = ''Exciting roasted vegetables with bold spice combinations to cure boredom.'',
      cookingTime = ''35 minutes'',
      instructions = ''1. Cut vegetables uniformly. 2. Toss with oil and spice mix. 3. Roast until caramelized. 4. Garnish with fresh herbs.'',
      moodDescription = ''Bold flavors and textures to excite your palate''\<rparr>"

definition sampleRecipes :: "recipe list" where
  "sampleRecipes =
     [comfort_mac_and_cheese,
      rainbow_veggie_stir_fry,
      soothing_tomato_basil_soup,
      quick_avocado_toast,
      romantic_mushroom_risotto,
      healing_ginger_lentil_soup,
      spicy_chickpea_curry,
      lazy_day_pasta_primavera,
      mood_boosting_smoothie_bowl,
      comforting_potato_soup,
      energizing_quinoa_salad,
      love_filled_stuffed_bell_peppers,
      simple_herb_omelette,
      warming_golden_turmeric_rice,
      adventure_spice_mix_roasted_vegetables]"

definition seeded :: db where
  "seeded = \<lparr>docs = sampleRecipes, reachable = True, issued = []\<rparr>"

section \<open>Properties of the handler\<close>

subsection \<open>The queries and the sort\<close>

text \<open>
  What the two filters select, and the comparator's sort as a stable sort on the key
  \<open>- matchScore\<close>: its result is sorted, keeps ties in their order, and is the only
  rearrangement that does both.
\<close>

lemma matches_query:
  "matches (query m ws) r \<longleftrightarrow>
     toLowerCase m \<in> set (moodTags r) \<and> set (ingredients r) \<inter> set ws \<noteq> {}"
  by (auto simp: query_def list_ex_iff array_includes_def)

lemma matches_broadQuery:
  "matches (broadQuery ws) r \<longleftrightarrow> set (ingredients r) \<inter> set ws \<noteq> {}"
  by (auto simp: broadQuery_def list_ex_iff array_includes_def)

lemma insert_cmp_by_score:
  "insert_cmp by_score x ys = insort_key (\<lambda>r. - int (matchScore r)) x ys"
  by (induction ys) (auto simp: by_score_def)

lemma sort_cmp_by_score:
  "sort_cmp by_score xs = sort_key (\<lambda>r. - int (matchScore r)) xs"
  by (induction xs) (simp_all add: sort_cmp_def insert_cmp_by_score)

lemma sorted_by_score:
  "sorted_wrt (\<lambda>a b. matchScore b \<le> matchScore a) (sort_cmp by_score xs)"
proof -
  have "sorted (map (\<lambda>r. - int (matchScore r)) (sort_key (\<lambda>r. - int (matchScore r)) xs))"
    by (rule sorted_sort_key)
  then show ?thesis
    by (simp add: sort_cmp_by_score sorted_wrt_map)
qed

lemma stable_by_score:
  "filter (\<lambda>x. matchScore x = k) (sort_cmp by_score xs) = filter (\<lambda>x. matchScore x = k) xs"
proof -
  have "filter (\<lambda>y. - int (matchScore y) = - int k) (sort_key (\<lambda>r. - int (matchScore r)) xs) =
        filter (\<lambda>y. - int (matchScore y) = - int k) xs"
    by (rule sort_key_stable)
  then show ?thesis by (simp add: sort_cmp_by_score)
qed

lemma stable_sort_unique:
  assumes "mset ys = mset xs"
    and "sorted_wrt (\<lambda>a b. matchScore b \<le> matchScore a) ys"
    and "\<And>k. filter (\<lambda>x. matchScore x = k) ys = filter (\<lambda>x. matchScore x = k) xs"
  shows "ys = sort_cmp by_score xs"
proof -
  have "sort_key (\<lambda>r. - int (matchScore r)) xs = ys"
  proof (rule properties_for_sort_key)
    show "mset ys = mset xs" by (rule assms(1))
    show "sorted (map (\<lambda>r. - int (matchScore r)) ys)"
      using assms(2) by (simp add: sorted_wrt_map)
    fix k
    have e: "(- int (matchScore k) = - int (matchScore x)) = (matchScore x = matchScore k)" for x
      by auto
    show "filter (\<lambda>x. - int (matchScore k) = - int (matchScore x)) ys =
          filter (\<lambda>x. - int (matchScore k) = - int (matchScore x)) xs"
      unfolding e by (rule assms(3))
  qed
  then show ?thesis by (simp add: sort_cmp_by_score)
qed

lemma topRecipes_take: "topRecipes scored = take 3 (sort_cmp by_score scored)"
  by (simp add: topRecipes_def slice_def)

lemma set_topRecipes: "set (topRecipes xs) \<subseteq> set xs"
proof -
  have "set (take 3 (sort_cmp by_score xs)) \<subseteq> set (sort_cmp by_score xs)"
    by (rule set_take_subset)
  then show ?thesis
    by (simp add: topRecipes_def slice_def sort_cmp_by_score)
qed

subsection \<open>The store and the fetch\<close>

lemma find_limit_reachable:
  "reachable s \<Longrightarrow>
     find_limit q n s =
       (Some (take n (filter (matches q) (docs s))), s\<lparr>issued := issued s @ [(q, n)]\<rparr>)"
  by (simp add: find_limit_def)

lemma find_limit_unreachable:
  "\<not> reachable s \<Longrightarrow> find_limit q n s = (None, s\<lparr>issued := issued s @ [(q, n)]\<rparr>)"
  by (simp add: find_limit_def)

lemma fetch_reachable:
  "reachable s \<Longrightarrow>
     fetch m ws s =
       (if take 10 (filter (matches (query m ws)) (docs s)) = []
        then (Some (take 10 (filter (matches (broadQuery ws)) (docs s))),
              s\<lparr>issued := issued s @ [(query m ws, 10), (broadQuery ws, 10)]\<rparr>)
        else (Some (take 10 (filter (matches (query m ws)) (docs s))),
              s\<lparr>issued := issued s @ [(query m ws, 10)]\<rparr>))"
  by (auto simp: fetch_def find_limit_def min_def split: if_splits)

lemma fetch_unreachable:
  "\<not> reachable s \<Longrightarrow> fetch m ws s = (None, s\<lparr>issued := issued s @ [(query m ws, 10)]\<rparr>)"
  by (simp add: fetch_def find_limit_def)

lemma fetch_Some:
  assumes "fetch m ws s = (Some recipes, s')"
  shows "reachable s"
    and "length recipes \<le> 10"
    and "set recipes \<subseteq> {r \<in> set (docs s). set (ingredients r) \<inter> set ws \<noteq> {}}"
proof -
  show r: "reachable s"
    using assms by (cases "reachable s") (simp_all add: fetch_unreachable)
  show "length recipes \<le> 10"
    using assms r by (auto simp: fetch_reachable split: if_splits)
  have "set (take 10 (filter (matches q) (docs s))) \<subseteq> {r \<in> set (docs s). matches q r}" for q
    using set_take_subset [of 10 "filter (matches q) (docs s)"] by auto
  from this [of "query m ws"] this [of "broadQuery ws"]
  show "set recipes \<subseteq> {r \<in> set (docs s). set (ingredients r) \<inter> set ws \<noteq> {}}"
    using assms r by (auto simp: fetch_reachable matches_query matches_broadQuery split: if_splits)
qed

lemma fetch_issues_primary:
  "\<exists>rest. issued (snd (fetch m ws s)) = issued s @ (query m ws, 10) # rest"
  by (cases "reachable s") (simp_all add: fetch_reachable fetch_unreachable)

lemma fetch_frame:
  "docs (snd (fetch m ws s)) = docs s \<and> reachable (snd (fetch m ws s)) = reachable s"
  by (cases "reachable s") (simp_all add: fetch_reachable fetch_unreachable)

lemma fetch_depends:
  "docs s2 = docs s1 \<Longrightarrow> reachable s2 = reachable s1 \<Longrightarrow>
     fst (fetch m ws s2) = fst (fetch m ws s1)"
  by (cases "reachable s1") (simp_all add: fetch_reachable fetch_unreachable)

lemma no_common_ingredient:
  assumes "reachable s" and "\<forall>r \<in> set (docs s). set (ingredients r) \<inter> set ws = {}"
  shows "fst (find_limit (query m ws) 10 s) = Some []"
    and "fst (find_limit (broadQuery ws) 10 s) = Some []"
  using assms by (simp_all add: find_limit_reachable matches_query matches_broadQuery)

subsection \<open>The responses\<close>

lemma ok_inject: "ok rs = ok rs' \<longleftrightarrow> rs = rs'"
  by (simp add: ok_def)

lemma ok_distinct: "bad_request \<noteq> ok rs" "fetch_failed \<noteq> ok rs"
  by (simp_all add: ok_def bad_request_def fetch_failed_def)

lemma status_not_400:
  "status fetch_failed \<noteq> 400" "status (ok rs) \<noteq> 400"
  by (simp_all add: fetch_failed_def ok_def)

lemma get_recipes_accepted:
  "m \<noteq> [] \<Longrightarrow> ws \<noteq> [] \<Longrightarrow>
     get_recipes (Some m) (Some ws) s =
       (case fetch m ws s of
          (None, s') \<Rightarrow> (fetch_failed, s')
        | (Some recipes, s') \<Rightarrow> (ok (topRecipes (scoredRecipes ws recipes)), s'))"
  by (simp add: get_recipes_def)

lemma get_recipes_rejected:
  "mood = None \<or> mood = Some [] \<or> wanted = None \<or> wanted = Some [] \<Longrightarrow>
     get_recipes mood wanted s = (bad_request, s)"
  by (auto simp: get_recipes_def split: option.splits)

lemma get_recipes_ok:
  assumes "fst (get_recipes mood wanted s) = ok rs"
  obtains m ws recipes s' where
    "mood = Some m" "wanted = Some ws" "m \<noteq> []" "ws \<noteq> []"
    "fetch m ws s = (Some recipes, s')" "rs = topRecipes (scoredRecipes ws recipes)"
proof -
  from assms obtain m ws where mw: "mood = Some m" "wanted = Some ws" "m \<noteq> []" "ws \<noteq> []"
    by (auto simp: get_recipes_def ok_distinct split: option.splits if_splits)
  obtain res s' where f: "fetch m ws s = (res, s')"
    by (cases "fetch m ws s")
  with assms mw obtain recipes where "res = Some recipes" "rs = topRecipes (scoredRecipes ws recipes)"
    by (cases res) (auto simp: get_recipes_accepted ok_distinct ok_inject)
  with mw f that show thesis by blast
qed

lemma get_recipes_frame:
  "docs (snd (get_recipes mood wanted s)) = docs s \<and>
   reachable (snd (get_recipes mood wanted s)) = reachable s"
proof (cases "mood = None \<or> mood = Some [] \<or> wanted = None \<or> wanted = Some []")
  case True
  then show ?thesis by (simp add: get_recipes_rejected)
next
  case False
  then obtain m ws where mw: "mood = Some m" "wanted = Some ws" "m \<noteq> []" "ws \<noteq> []"
    by auto
  obtain res s' where f: "fetch m ws s = (res, s')" by (cases "fetch m ws s")
  with fetch_frame [of m ws s] have "docs s' = docs s \<and> reachable s' = reachable s" by simp
  with mw f show ?thesis
    by (cases res) (simp_all add: get_recipes_accepted)
qed

lemma get_recipes_depends:
  assumes "docs s2 = docs s1" and "reachable s2 = reachable s1"
  shows "fst (get_recipes mood wanted s2) = fst (get_recipes mood wanted s1)"
proof (cases "mood = None \<or> mood = Some [] \<or> wanted = None \<or> wanted = Some []")
  case True
  then show ?thesis by (simp add: get_recipes_rejected)
next
  case False
  then obtain m ws where mw: "mood = Some m" "wanted = Some ws" "m \<noteq> []" "ws \<noteq> []"
    by auto
  from fetch_depends [OF assms] have "fst (fetch m ws s2) = fst (fetch m ws s1)" .
  with mw show ?thesis
    by (cases "fetch m ws s1"; cases "fetch m ws s2")
       (auto simp: get_recipes_accepted split: option.splits)
qed

subsection \<open>Scoring\<close>

lemma scoreRecipe_fields:
  "matchingIngredients (scoreRecipe ws r) = filter (\<lambda>i. i \<in> set ws) (ingredients r)"
  "matchScore (scoreRecipe ws r) = length (filter (\<lambda>i. i \<in> set ws) (ingredients r))"
  "ingredients (scoreRecipe ws r) = ingredients r"
  "moodTags (scoreRecipe ws r) = moodTags r"
  "name (scoreRecipe ws r) = name r"
  by (simp_all add: scoreRecipe_def array_includes_def Let_def)

lemma truncate_scoreRecipe: "recipe.truncate (scoreRecipe ws r) = r"
  by (simp add: scoreRecipe_def recipe.truncate_def Let_def)

lemma card_inter_filter:
  "distinct xs \<Longrightarrow> card (set xs \<inter> A) = length (filter (\<lambda>x. x \<in> A) xs)"
proof (induction xs)
  case Nil
  then show ?case by simp
next
  case (Cons x xs)
  then show ?case by (cases "x \<in> A") simp_all
qed

lemma returned_is_scored:
  assumes "fst (get_recipes mood wanted s) = ok rs" and "x \<in> set rs"
  obtains ws r where "wanted = Some ws" "r \<in> set (docs s)"
    "set (ingredients r) \<inter> set ws \<noteq> {}" "x = scoreRecipe ws r"
proof -
  from assms(1) obtain m ws recipes s' where
    h: "wanted = Some ws" "fetch m ws s = (Some recipes, s')"
       "rs = topRecipes (scoredRecipes ws recipes)"
    by (rule get_recipes_ok)
  from assms(2) h(3) set_topRecipes have "x \<in> set (scoredRecipes ws recipes)" by blast
  then obtain r where r: "r \<in> set recipes" "x = scoreRecipe ws r"
    by (auto simp: scoredRecipes_def)
  with fetch_Some(3) [OF h(2)] have "r \<in> set (docs s)" "set (ingredients r) \<inter> set ws \<noteq> {}"
    by auto
  with h(1) r(2) that show thesis by blast
qed

lemma filter_removeAll_absent:
  "x \<notin> set ys \<Longrightarrow> filter (\<lambda>i. i \<in> set (removeAll x ws)) ys = filter (\<lambda>i. i \<in> set ws) ys"
  by (rule filter_cong) auto

lemma toLowerCase_Nil: "toLowerCase m = [] \<longleftrightarrow> m = []"
  by (simp add: toLowerCase_def)

lemma mood_only_lowercased:
  assumes "toLowerCase m = toLowerCase m'"
  shows "get_recipes (Some m) wanted s = get_recipes (Some m') wanted s"
proof -
  from assms have q: "query m ws = query m' ws" for ws
    by (simp add: query_def)
  from assms toLowerCase_Nil [of m] toLowerCase_Nil [of m'] have "m = [] \<longleftrightarrow> m' = []"
    by simp
  then show ?thesis
    by (simp add: get_recipes_def fetch_def q split: option.splits)
qed

subsection \<open>Running the handler on the seeded catalog\<close>

text \<open>
  The fields of the catalog the handler reads, and four requests evaluated against the
  seeded store.
\<close>

lemma catalog_name:
  "name comfort_mac_and_cheese = ''Comfort Mac and Cheese''"
  "name rainbow_veggie_stir_fry = ''Rainbow Veggie Stir-Fry''"
  "name soothing_tomato_basil_soup = ''Soothing Tomato Basil Soup''"
  "name quick_avocado_toast = ''Quick Avocado Toast''"
  "name romantic_mushroom_risotto = ''Romantic Mushroom Risotto''"
  "name healing_ginger_lentil_soup = ''Healing Ginger Lentil Soup''"
  "name spicy_chickpea_curry = ''Spicy Chickpea Curry''"
  "name lazy_day_pasta_primavera = ''Lazy Day Pasta Primavera''"
  "name mood_boosting_smoothie_bowl = ''Mood-Boosting Smoothie Bowl''"
  "name comforting_potato_soup = ''Comforting Potato Soup''"
  "name energizing_quinoa_salad = ''Energizing Quinoa Salad''"
  "name love_filled_stuffed_bell_peppers = ''Love-Filled Stuffed Bell Peppers''"
  "name simple_herb_omelette = ''Simple Herb Omelette''"
  "name warming_golden_turmeric_rice = ''Warming Golden Turmeric Rice''"
  "name adventure_spice_mix_roasted_vegetables = ''Adventure Spice Mix Roasted Vegetables''"
  by (simp_all add: comfort_mac_and_cheese_def rainbow_veggie_stir_fry_def soothing_tomato_basil_soup_def
    quick_avocado_toast_def romantic_mushroom_risotto_def healing_ginger_lentil_soup_def
    spicy_chickpea_curry_def lazy_day_pasta_primavera_def mood_boosting_smoothie_bowl_def
    comforting_potato_soup_def energizing_quinoa_salad_def
    love_filled_stuffed_bell_peppers_def simple_herb_omelette_def
    warming_golden_turmeric_rice_def adventure_spice_mix_roasted_vegetables_def)

lemma catalog_moodTags:
  "moodTags comfort_mac_and_cheese = [''sad'', ''stressed'']"
  "moodTags rainbow_veggie_stir_fry = [''happy'', ''bored'']"
  "moodTags soothing_tomato_basil_soup = [''stressed'', ''sick'']"
  "moodTags quick_avocado_toast = [''lazy'', ''happy'']"
  "moodTags romantic_mushroom_risotto = [''love'', ''happy'']"
  "moodTags healing_ginger_lentil_soup = [''sick'', ''stressed'']"
  "moodTags spicy_chickpea_curry = [''bored'', ''happy'']"
  "moodTags lazy_day_pasta_primavera = [''lazy'', ''happy'']"
  "moodTags mood_boosting_smoothie_bowl = [''sad'', ''happy'']"
  "moodTags comforting_potato_soup = [''sad'', ''stressed'', ''sick'']"
  "moodTags energizing_quinoa_salad = [''happy'', ''bored'']"
  "moodTags love_filled_stuffed_bell_peppers = [''love'', ''happy'']"
  "moodTags simple_herb_omelette = [''lazy'', ''happy'']"
  "moodTags warming_golden_turmeric_rice = [''sick'', ''stressed'']"
  "moodTags adventure_spice_mix_roasted_vegetables = [''bored'', ''happy'']"
  by (simp_all add: comfort_mac_and_cheese_def rainbow_veggie_stir_fry_def soothing_tomato_basil_soup_def
    quick_avocado_toast_def romantic_mushroom_risotto_def healing_ginger_lentil_soup_def
    spicy_chickpea_curry_def lazy_day_pasta_primavera_def mood_boosting_smoothie_bowl_def
    comforting_potato_soup_def energizing_quinoa_salad_def
    love_filled_stuffed_bell_peppers_def simple_herb_omelette_def
    warming_golden_turmeric_rice_def adventure_spice_mix_roasted_vegetables_def)

lemma catalog_ingredients:
  "ingredients comfort_mac_and_cheese = [''pasta'', ''cheese'', ''milk'', ''butter'', ''flour'']"
  "ingredients rainbow_veggie_stir_fry = [''bell pepper'', ''broccoli'', ''carrot'', ''garlic'', ''ginger'', ''rice'']"
  "ingredients soothing_tomato_basil_soup = [''tomato'', ''onion'', ''garlic'', ''herbs'', ''milk'']"
  "ingredients quick_avocado_toast = [''bread'', ''cheese'', ''tomato'', ''herbs'']"
  "ingredients romantic_mushroom_risotto = [''rice'', ''mushroom'', ''onion'', ''garlic'', ''cheese'']"
  "ingredients healing_ginger_lentil_soup = [''lentils'', ''ginger'', ''garlic'', ''onion'', ''carrot'']"
  "ingredients spicy_chickpea_curry = [''chickpeas'', ''tomato'', ''onion'', ''garlic'', ''ginger'', ''spices'']"
  "ingredients lazy_day_pasta_primavera = [''pasta'', ''broccoli'', ''bell pepper'', ''garlic'', ''olive oil'']"
  "ingredients mood_boosting_smoothie_bowl = [''oats'', ''milk'', ''yogurt'']"
  "ingredients comforting_potato_soup = [''potato'', ''onion'', ''garlic'', ''milk'', ''butter'']"
  "ingredients energizing_quinoa_salad = [''quinoa'', ''cucumber'', ''tomato'', ''herbs'', ''olive oil'']"
  "ingredients love_filled_stuffed_bell_peppers = [''bell pepper'', ''rice'', ''mushroom'', ''cheese'', ''herbs'']"
  "ingredients simple_herb_omelette = [''eggs'', ''herbs'', ''cheese'', ''butter'']"
  "ingredients warming_golden_turmeric_rice = [''rice'', ''turmeric'', ''ginger'', ''garlic'', ''coconut oil'']"
  "ingredients adventure_spice_mix_roasted_vegetables = [''potato'', ''carrot'', ''broccoli'', ''spices'', ''olive oil'']"
  by (simp_all add: comfort_mac_and_cheese_def rainbow_veggie_stir_fry_def soothing_tomato_basil_soup_def
    quick_avocado_toast_def romantic_mushroom_risotto_def healing_ginger_lentil_soup_def
    spicy_chickpea_curry_def lazy_day_pasta_primavera_def mood_boosting_smoothie_bowl_def
    comforting_potato_soup_def energizing_quinoa_salad_def
    love_filled_stuffed_bell_peppers_def simple_herb_omelette_def
    warming_golden_turmeric_rice_def adventure_spice_mix_roasted_vegetables_def)

lemma lower_examples:
  "toLowerCase ''stressed'' = ''stressed''"
  "toLowerCase ''excited'' = ''excited''"
  "toLowerCase ''happy'' = ''happy''"
  "toLowerCase ''Happy'' = ''happy''"
  "toLowerCase ''HAPPY'' = ''happy''"
  "toLowerCase ''Cheese'' = ''cheese''"
  by code_simp+

lemmas run_defs = get_recipes_def fetch_def find_limit_def matches_query matches_broadQuery
  scoredRecipes_def topRecipes_def slice_def sort_cmp_def by_score_def scoreRecipe_fields
  lower_examples seeded_def sampleRecipes_def catalog_moodTags catalog_ingredients

lemma seeded_stressed:
  "get_recipes (Some ''stressed'') (Some [''pasta'', ''cheese'', ''milk'', ''butter'', ''flour'']) seeded =
     (ok [scoreRecipe [''pasta'', ''cheese'', ''milk'', ''butter'', ''flour''] comfort_mac_and_cheese,
          scoreRecipe [''pasta'', ''cheese'', ''milk'', ''butter'', ''flour''] comforting_potato_soup,
          scoreRecipe [''pasta'', ''cheese'', ''milk'', ''butter'', ''flour''] soothing_tomato_basil_soup],
      seeded\<lparr>issued := [(query ''stressed'' [''pasta'', ''cheese'', ''milk'', ''butter'', ''flour''], 10)]\<rparr>)"
  by (simp add: run_defs)

lemma seeded_excited:
  "get_recipes (Some ''excited'') (Some [''rice'', ''mushroom'']) seeded =
     (ok [scoreRecipe [''rice'', ''mushroom''] romantic_mushroom_risotto,
          scoreRecipe [''rice'', ''mushroom''] love_filled_stuffed_bell_peppers,
          scoreRecipe [''rice'', ''mushroom''] rainbow_veggie_stir_fry],
      seeded\<lparr>issued := [(query ''excited'' [''rice'', ''mushroom''], 10),
                         (broadQuery [''rice'', ''mushroom''], 10)]\<rparr>)"
  by (simp add: run_defs)

lemma seeded_excited_fetch:
  "fetch ''excited'' [''rice'', ''mushroom''] seeded =
     (Some [rainbow_veggie_stir_fry, romantic_mushroom_risotto,
            love_filled_stuffed_bell_peppers, warming_golden_turmeric_rice],
      seeded\<lparr>issued := [(query ''excited'' [''rice'', ''mushroom''], 10),
                         (broadQuery [''rice'', ''mushroom''], 10)]\<rparr>)"
  by (simp add: run_defs)

lemma seeded_nonexistent:
  "get_recipes (Some ''happy'') (Some [''nonexistent-item'']) seeded =
     (ok [],
      seeded\<lparr>issued := [(query ''happy'' [''nonexistent-item''], 10),
                         (broadQuery [''nonexistent-item''], 10)]\<rparr>)"
  by (simp add: run_defs)

lemma seeded_happy_cheese:
  "get_recipes (Some ''Happy'') (Some [''cheese'']) seeded =
     (ok [scoreRecipe [''cheese''] quick_avocado_toast,
          scoreRecipe [''cheese''] romantic_mushroom_risotto,
          scoreRecipe [''cheese''] love_filled_stuffed_bell_peppers],
      seeded\<lparr>issued := [(query ''Happy'' [''cheese''], 10)]\<rparr>)"
  by (simp add: run_defs)

text \<open>
  The data model's invariant on the catalog: no document names an ingredient twice.
  The handler only reads the collection, and the collection is only ever written by
  the seeding, so the invariant holds of every store the handler meets.
\<close>

lemma seeded_ingredients_distinct:
  "r \<in> set (docs seeded) \<Longrightarrow> distinct (ingredients r)"
  by (auto simp: seeded_def sampleRecipes_def catalog_ingredients)

section \<open>The claims\<close>

subsection \<open>The two-step fetch\<close>

text \<open>
  Claim C1. For a request with a non-empty mood and non-empty ingredients against a
  reachable store, the handler first issues the primary query with limit 10, which
  yields the first ten documents whose \<open>moodTags\<close> hold the lowercased mood and whose
  \<open>ingredients\<close> share an element with the request. It issues the fallback query
  (limit 10, ingredients only) exactly when the primary result is empty, and the
  response is the ranking of the result of the query that was used.
\<close>

theorem primary_then_fallback:
  fixes m ws s
  defines "primary \<equiv> take 10 (filter (\<lambda>r. toLowerCase m \<in> set (moodTags r) \<and>
                                       set (ingredients r) \<inter> set ws \<noteq> {}) (docs s))"
    and "fallback \<equiv> take 10 (filter (\<lambda>r. set (ingredients r) \<inter> set ws \<noteq> {}) (docs s))"
  assumes "m \<noteq> []" and "ws \<noteq> []" and "reachable s"
  shows "fst (find_limit (query m ws) 10 s) = Some primary \<and>
         fst (find_limit (broadQuery ws) 10 s) = Some fallback \<and>
         length primary \<le> 10 \<and> length fallback \<le> 10 \<and>
         get_recipes (Some m) (Some ws) s =
           (if primary = []
            then (ok (topRecipes (scoredRecipes ws fallback)),
                  s\<lparr>issued := issued s @ [(query m ws, 10), (broadQuery ws, 10)]\<rparr>)
            else (ok (topRecipes (scoredRecipes ws primary)),
                  s\<lparr>issued := issued s @ [(query m ws, 10)]\<rparr>))"
proof -
  have p: "filter (matches (query m ws)) (docs s) =
      filter (\<lambda>r. toLowerCase m \<in> set (moodTags r) \<and> set (ingredients r) \<inter> set ws \<noteq> {}) (docs s)"
    by (rule filter_cong) (simp_all add: matches_query)
  have f: "filter (matches (broadQuery ws)) (docs s) =
      filter (\<lambda>r. set (ingredients r) \<inter> set ws \<noteq> {}) (docs s)"
    by (rule filter_cong) (simp_all add: matches_broadQuery)
  have "fst (find_limit (query m ws) 10 s) = Some primary"
    using assms(5) by (simp add: find_limit_reachable p primary_def)
  moreover have "fst (find_limit (broadQuery ws) 10 s) = Some fallback"
    using assms(5) by (simp add: find_limit_reachable f fallback_def)
  moreover have "length primary \<le> 10" "length fallback \<le> 10"
    by (simp_all add: primary_def fallback_def)
  moreover have "get_recipes (Some m) (Some ws) s =
           (if primary = []
            then (ok (topRecipes (scoredRecipes ws fallback)),
                  s\<lparr>issued := issued s @ [(query m ws, 10), (broadQuery ws, 10)]\<rparr>)
            else (ok (topRecipes (scoredRecipes ws primary)),
                  s\<lparr>issued := issued s @ [(query m ws, 10)]\<rparr>))"
    unfolding primary_def fallback_def p [symmetric] f [symmetric]
    using assms(3-5) by (simp add: get_recipes_accepted fetch_reachable)
  ultimately show ?thesis by blast
qed

text \<open>
  On the seeded catalog: no recipe is tagged \<open>excited\<close>, so rice and mushroom are
  answered by the fallback; \<open>stressed\<close> with milk is answered by the primary query.
\<close>

theorem primary_then_fallback_witness:
  "get_recipes (Some ''excited'') (Some [''rice'', ''mushroom'']) seeded =
     (ok (topRecipes (scoredRecipes [''rice'', ''mushroom'']
            [rainbow_veggie_stir_fry, romantic_mushroom_risotto,
             love_filled_stuffed_bell_peppers, warming_golden_turmeric_rice])),
      seeded\<lparr>issued := [(query ''excited'' [''rice'', ''mushroom''], 10),
                         (broadQuery [''rice'', ''mushroom''], 10)]\<rparr>) \<and>
   get_recipes (Some ''stressed'') (Some [''milk'']) seeded =
     (ok (topRecipes (scoredRecipes [''milk'']
            [comfort_mac_and_cheese, soothing_tomato_basil_soup, comforting_potato_soup])),
      seeded\<lparr>issued := [(query ''stressed'' [''milk''], 10)]\<rparr>)"
proof -
  have r: "reachable seeded" by (simp add: seeded_def)
  have "get_recipes (Some ''excited'') (Some [''rice'', ''mushroom'']) seeded =
     (ok (topRecipes (scoredRecipes [''rice'', ''mushroom'']
            [rainbow_veggie_stir_fry, romantic_mushroom_risotto,
             love_filled_stuffed_bell_peppers, warming_golden_turmeric_rice])),
      seeded\<lparr>issued := [(query ''excited'' [''rice'', ''mushroom''], 10),
                         (broadQuery [''rice'', ''mushroom''], 10)]\<rparr>)"
    using primary_then_fallback [of "''excited''" "[''rice'', ''mushroom'']" seeded, OF _ _ r]
    by (simp add: lower_examples seeded_def sampleRecipes_def catalog_moodTags catalog_ingredients)
  moreover have "get_recipes (Some ''stressed'') (Some [''milk'']) seeded =
     (ok (topRecipes (scoredRecipes [''milk'']
            [comfort_mac_and_cheese, soothing_tomato_basil_soup, comforting_potato_soup])),
      seeded\<lparr>issued := [(query ''stressed'' [''milk''], 10)]\<rparr>)"
    using primary_then_fallback [of "''stressed''" "[''milk'']" seeded, OF _ _ r]
    by (simp add: lower_examples seeded_def sampleRecipes_def catalog_moodTags catalog_ingredients)
  ultimately show ?thesis by blast
qed

subsection \<open>Scoring of the fetched recipes\<close>

text \<open>
  Claim C2. For every fetched recipe, \<open>matchingIngredients\<close> is the intersection of the
  recipe's ingredients with the requested ones, listed in the order of the recipe's own
  ingredient list, and \<open>matchScore\<close> is its length. For a recipe whose ingredients form a
  set (no name twice, as the data model requires and as every document of the catalog
  does) \<open>matchScore\<close> is the size of that intersection. Whenever a requested ingredient
  is among the recipe's ingredients, \<open>matchScore\<close> is at least 1.
\<close>

theorem scored_fields:
  assumes "i < length recipes"
  shows "length (scoredRecipes ws recipes) = length recipes \<and>
         recipe.truncate (scoredRecipes ws recipes ! i) = recipes ! i \<and>
         matchingIngredients (scoredRecipes ws recipes ! i) =
           filter (\<lambda>x. x \<in> set ws) (ingredients (recipes ! i)) \<and>
         set (matchingIngredients (scoredRecipes ws recipes ! i)) =
           set (ingredients (recipes ! i)) \<inter> set ws \<and>
         subseq (matchingIngredients (scoredRecipes ws recipes ! i)) (ingredients (recipes ! i)) \<and>
         matchScore (scoredRecipes ws recipes ! i) =
           length (matchingIngredients (scoredRecipes ws recipes ! i)) \<and>
         (distinct (ingredients (recipes ! i)) \<longrightarrow>
            matchScore (scoredRecipes ws recipes ! i) =
              card (set (ingredients (recipes ! i)) \<inter> set ws)) \<and>
         (set (ingredients (recipes ! i)) \<inter> set ws \<noteq> {} \<longrightarrow>
            1 \<le> matchScore (scoredRecipes ws recipes ! i))"
proof -
  let ?r = "recipes ! i"
  have x: "scoredRecipes ws recipes ! i = scoreRecipe ws ?r"
    using assms by (simp add: scoredRecipes_def)
  have "set (ingredients ?r) \<inter> set ws \<noteq> {} \<Longrightarrow>
      filter (\<lambda>x. x \<in> set ws) (ingredients ?r) \<noteq> []"
    by (auto simp: filter_empty_conv)
  then have pos: "set (ingredients ?r) \<inter> set ws \<noteq> {} \<Longrightarrow>
      1 \<le> length (filter (\<lambda>x. x \<in> set ws) (ingredients ?r))"
    by (cases "filter (\<lambda>x. x \<in> set ws) (ingredients ?r)") simp_all
  show ?thesis
    unfolding x scoreRecipe_fields truncate_scoreRecipe
    using pos by (auto simp: scoredRecipes_def card_inter_filter)
qed

text \<open>
  The potato soup against the pantry of the stressed example: milk and butter match.
\<close>

theorem scored_fields_witness:
  "comforting_potato_soup \<in> set (docs seeded) \<and>
   distinct (ingredients comforting_potato_soup) \<and>
   matchingIngredients
     (scoredRecipes [''pasta'', ''cheese'', ''milk'', ''butter'', ''flour'']
        [comfort_mac_and_cheese, comforting_potato_soup] ! 1) = [''milk'', ''butter''] \<and>
   matchScore
     (scoredRecipes [''pasta'', ''cheese'', ''milk'', ''butter'', ''flour'']
        [comfort_mac_and_cheese, comforting_potato_soup] ! 1) = 2 \<and>
   card (set (ingredients comforting_potato_soup) \<inter>
         set [''pasta'', ''cheese'', ''milk'', ''butter'', ''flour'']) = 2"
proof -
  have m: "comforting_potato_soup \<in> set (docs seeded)"
    by (simp add: seeded_def sampleRecipes_def)
  from seeded_ingredients_distinct [OF m]
  have d: "distinct (ingredients comforting_potato_soup)" .
  from scored_fields [of 1 "[comfort_mac_and_cheese, comforting_potato_soup]"
      "[''pasta'', ''cheese'', ''milk'', ''butter'', ''flour'']"] m d
  show ?thesis by (simp add: catalog_ingredients)
qed

subsection \<open>Truncation\<close>

text \<open>
  Claim C3, as amended. The handler takes no limit: the returned list is the first three
  entries of the sorted scored list, so its length is at most 3.
\<close>

theorem at_most_three:
  assumes "fst (get_recipes mood wanted s) = ok rs"
  shows "length rs \<le> 3 \<and>
         (\<exists>m ws recipes s'. mood = Some m \<and> wanted = Some ws \<and>
            fetch m ws s = (Some recipes, s') \<and>
            rs = take 3 (sort_cmp by_score (scoredRecipes ws recipes)))"
proof -
  from assms obtain m ws recipes s' where
    h: "mood = Some m" "wanted = Some ws" "fetch m ws s = (Some recipes, s')"
       "rs = topRecipes (scoredRecipes ws recipes)"
    by (rule get_recipes_ok)
  from h(4) have "rs = take 3 (sort_cmp by_score (scoredRecipes ws recipes))"
    by (simp add: topRecipes_take)
  moreover from this have "length rs \<le> 3" by simp
  ultimately show ?thesis using h(1-3) by blast
qed

text \<open>
  Four seeded recipes are tagged \<open>happy\<close> and hold cheese; three are returned.
\<close>

theorem at_most_three_witness:
  "fst (get_recipes (Some ''Happy'') (Some [''cheese'']) seeded) =
     ok [scoreRecipe [''cheese''] quick_avocado_toast,
         scoreRecipe [''cheese''] romantic_mushroom_risotto,
         scoreRecipe [''cheese''] love_filled_stuffed_bell_peppers] \<and>
   length [scoreRecipe [''cheese''] quick_avocado_toast,
           scoreRecipe [''cheese''] romantic_mushroom_risotto,
           scoreRecipe [''cheese''] love_filled_stuffed_bell_peppers] \<le> 3 \<and>
   length (filter (matches (query ''Happy'' [''cheese''])) (docs seeded)) = 4"
proof -
  have e: "fst (get_recipes (Some ''Happy'') (Some [''cheese'']) seeded) =
     ok [scoreRecipe [''cheese''] quick_avocado_toast,
         scoreRecipe [''cheese''] romantic_mushroom_risotto,
         scoreRecipe [''cheese''] love_filled_stuffed_bell_peppers]"
    by (simp add: seeded_happy_cheese)
  have "length (filter (matches (query ''Happy'' [''cheese''])) (docs seeded)) = 4"
    by (simp add: run_defs)
  with e at_most_three [OF e] show ?thesis by blast
qed

text \<open>
  The claim as stated fails for a limit of 1: the request cannot carry a limit, and the
  same request is answered with three recipes, not with the first entry of the sorted
  scored list.
\<close>

theorem limit_not_a_parameter:
  "fst (get_recipes (Some ''Happy'') (Some [''cheese'']) seeded) =
     ok [scoreRecipe [''cheese''] quick_avocado_toast,
         scoreRecipe [''cheese''] romantic_mushroom_risotto,
         scoreRecipe [''cheese''] love_filled_stuffed_bell_peppers] \<and>
   \<not> length [scoreRecipe [''cheese''] quick_avocado_toast,
             scoreRecipe [''cheese''] romantic_mushroom_risotto,
             scoreRecipe [''cheese''] love_filled_stuffed_bell_peppers] \<le> 1 \<and>
   [scoreRecipe [''cheese''] quick_avocado_toast,
    scoreRecipe [''cheese''] romantic_mushroom_risotto,
    scoreRecipe [''cheese''] love_filled_stuffed_bell_peppers] \<noteq>
     take 1 (sort_cmp by_score (scoredRecipes [''cheese'']
               [quick_avocado_toast, romantic_mushroom_risotto,
                love_filled_stuffed_bell_peppers, simple_herb_omelette]))"
  by (simp add: seeded_happy_cheese scoredRecipes_def sort_cmp_def by_score_def
      scoreRecipe_fields catalog_ingredients)

subsection \<open>Ranking\<close>

text \<open>
  Claim C4. The returned list is in non-increasing order of \<open>matchScore\<close>, and for
  every score the returned recipes with that score are the first ones with that score
  in the order the store returned them.
\<close>

theorem ranked_and_stable:
  assumes "fst (get_recipes mood wanted s) = ok rs"
  shows "sorted_wrt (\<lambda>a b. matchScore b \<le> matchScore a) rs \<and>
         (\<forall>i. Suc i < length rs \<longrightarrow> matchScore (rs ! Suc i) \<le> matchScore (rs ! i)) \<and>
         (\<exists>m ws recipes s'. mood = Some m \<and> wanted = Some ws \<and>
            fetch m ws s = (Some recipes, s') \<and>
            (\<forall>k. prefix (filter (\<lambda>x. matchScore x = k) rs)
                        (filter (\<lambda>x. matchScore x = k) (scoredRecipes ws recipes))))"
proof -
  from assms obtain m ws recipes s' where
    h: "mood = Some m" "wanted = Some ws" "fetch m ws s = (Some recipes, s')"
       "rs = topRecipes (scoredRecipes ws recipes)"
    by (rule get_recipes_ok)
  let ?sorted = "sort_cmp by_score (scoredRecipes ws recipes)"
  have rs: "rs = take 3 ?sorted"
    using h(4) by (simp add: topRecipes_take)
  have s: "sorted_wrt (\<lambda>a b. matchScore b \<le> matchScore a) rs"
    unfolding rs by (rule sorted_wrt_take) (rule sorted_by_score)
  have n: "\<forall>i. Suc i < length rs \<longrightarrow> matchScore (rs ! Suc i) \<le> matchScore (rs ! i)"
    using s by (simp add: sorted_wrt_iff_nth_less)
  have "prefix (filter (\<lambda>x. matchScore x = k) rs)
               (filter (\<lambda>x. matchScore x = k) (scoredRecipes ws recipes))" for k
  proof -
    have "prefix rs ?sorted" unfolding rs by (rule take_is_prefix)
    then have "prefix (filter (\<lambda>x. matchScore x = k) rs) (filter (\<lambda>x. matchScore x = k) ?sorted)"
      by (rule filter_mono_prefix)
    then show ?thesis by (simp add: stable_by_score)
  qed
  with s n h(1-3) show ?thesis by blast
qed

text \<open>
  Rice and mushroom on the seeded catalog: the store returns the stir-fry (1), the
  risotto (2), the stuffed peppers (2) and the turmeric rice (1); the two recipes of
  score 2 come first, in the store's order.
\<close>

theorem ranked_and_stable_witness:
  "fst (get_recipes (Some ''excited'') (Some [''rice'', ''mushroom'']) seeded) =
     ok [scoreRecipe [''rice'', ''mushroom''] romantic_mushroom_risotto,
         scoreRecipe [''rice'', ''mushroom''] love_filled_stuffed_bell_peppers,
         scoreRecipe [''rice'', ''mushroom''] rainbow_veggie_stir_fry] \<and>
   sorted_wrt (\<lambda>a b. matchScore b \<le> matchScore a)
     [scoreRecipe [''rice'', ''mushroom''] romantic_mushroom_risotto,
      scoreRecipe [''rice'', ''mushroom''] love_filled_stuffed_bell_peppers,
      scoreRecipe [''rice'', ''mushroom''] rainbow_veggie_stir_fry] \<and>
   prefix
     (filter (\<lambda>x. matchScore x = 2)
        [scoreRecipe [''rice'', ''mushroom''] romantic_mushroom_risotto,
         scoreRecipe [''rice'', ''mushroom''] love_filled_stuffed_bell_peppers,
         scoreRecipe [''rice'', ''mushroom''] rainbow_veggie_stir_fry])
     (filter (\<lambda>x. matchScore x = 2)
        (scoredRecipes [''rice'', ''mushroom'']
           [rainbow_veggie_stir_fry, romantic_mushroom_risotto,
            love_filled_stuffed_bell_peppers, warming_golden_turmeric_rice]))"
proof -
  have e: "fst (get_recipes (Some ''excited'') (Some [''rice'', ''mushroom'']) seeded) =
     ok [scoreRecipe [''rice'', ''mushroom''] romantic_mushroom_risotto,
         scoreRecipe [''rice'', ''mushroom''] love_filled_stuffed_bell_peppers,
         scoreRecipe [''rice'', ''mushroom''] rainbow_veggie_stir_fry]"
    by (simp add: seeded_excited)
  from ranked_and_stable [OF e] show ?thesis
    using e by (auto simp: seeded_excited_fetch)
qed

subsection \<open>No match\<close>

text \<open>
  Claim C5. When the primary and the fallback query both return no recipe, the request
  is answered with status 200 and the empty list.
\<close>

theorem no_match_is_success:
  assumes "m \<noteq> []" and "ws \<noteq> []"
    and "fst (find_limit (query m ws) 10 s) = Some []"
    and "fst (find_limit (broadQuery ws) 10 s) = Some []"
  shows "get_recipes (Some m) (Some ws) s =
           (\<lparr>status = 200, json = Recipes []\<rparr>,
            s\<lparr>issued := issued s @ [(query m ws, 10), (broadQuery ws, 10)]\<rparr>)"
proof -
  from assms(3) have r: "reachable s"
    by (cases "reachable s") (simp_all add: find_limit_unreachable)
  from assms(3,4) r
  have "take 10 (filter (matches (query m ws)) (docs s)) = []"
       "take 10 (filter (matches (broadQuery ws)) (docs s)) = []"
    by (simp_all add: find_limit_reachable)
  with assms(1,2) r show ?thesis
    by (simp add: get_recipes_accepted fetch_reachable topRecipes_take scoredRecipes_def
        sort_cmp_def ok_def)
qed

text \<open>
  No seeded recipe holds \<open>nonexistent-item\<close>.
\<close>

theorem no_match_is_success_witness:
  "get_recipes (Some ''happy'') (Some [''nonexistent-item'']) seeded =
     (\<lparr>status = 200, json = Recipes []\<rparr>,
      seeded\<lparr>issued := [(query ''happy'' [''nonexistent-item''], 10),
                         (broadQuery [''nonexistent-item''], 10)]\<rparr>)"
proof -
  have r: "reachable seeded" by (simp add: seeded_def)
  have n: "\<forall>r \<in> set (docs seeded). set (ingredients r) \<inter> set [''nonexistent-item''] = {}"
    by (simp add: seeded_def sampleRecipes_def catalog_ingredients)
  from no_match_is_success [of "''happy''" "[''nonexistent-item'']" seeded]
    no_common_ingredient [OF r n]
  show ?thesis by (simp add: seeded_def)
qed

subsection \<open>Validation\<close>

text \<open>
  Claim C6. A request whose mood is absent or empty, or whose ingredients are absent or
  empty, is answered with status 400 and an error body, and the store is left as it
  was: no query is issued. A request with a non-empty mood and non-empty ingredients
  is not answered with status 400, and the primary query is issued.
\<close>

theorem rejects_incomplete_requests:
  "(mood = None \<or> mood = Some [] \<or> wanted = None \<or> wanted = Some [] \<longrightarrow>
      get_recipes mood wanted s =
        (\<lparr>status = 400, json = Error ''Mood and ingredients are required''\<rparr>, s)) \<and>
   (\<forall>m ws. mood = Some m \<and> m \<noteq> [] \<and> wanted = Some ws \<and> ws \<noteq> [] \<longrightarrow>
      status (fst (get_recipes mood wanted s)) \<noteq> 400 \<and>
      (\<exists>rest. issued (snd (get_recipes mood wanted s)) = issued s @ (query m ws, 10) # rest))"
proof -
  have "status (fst (get_recipes (Some m) (Some ws) s)) \<noteq> 400 \<and>
        (\<exists>rest. issued (snd (get_recipes (Some m) (Some ws) s)) =
           issued s @ (query m ws, 10) # rest)"
    if "m \<noteq> []" "ws \<noteq> []" for m ws
  proof -
    obtain res s' where f: "fetch m ws s = (res, s')" by (cases "fetch m ws s")
    with fetch_issues_primary [of m ws s]
    have "\<exists>rest. issued s' = issued s @ (query m ws, 10) # rest" by simp
    with that f show ?thesis
      by (cases res) (simp_all add: get_recipes_accepted status_not_400)
  qed
  then show ?thesis
    by (auto simp: get_recipes_rejected [unfolded bad_request_def])
qed

text \<open>
  The four ways a request is incomplete, and a complete one.
\<close>

theorem rejects_incomplete_requests_witness:
  "get_recipes None (Some [''cheese'']) seeded =
     (\<lparr>status = 400, json = Error ''Mood and ingredients are required''\<rparr>, seeded) \<and>
   get_recipes (Some []) (Some [''cheese'']) seeded =
     (\<lparr>status = 400, json = Error ''Mood and ingredients are required''\<rparr>, seeded) \<and>
   get_recipes (Some ''happy'') None seeded =
     (\<lparr>status = 400, json = Error ''Mood and ingredients are required''\<rparr>, seeded) \<and>
   get_recipes (Some ''happy'') (Some []) seeded =
     (\<lparr>status = 400, json = Error ''Mood and ingredients are required''\<rparr>, seeded) \<and>
   status (fst (get_recipes (Some ''happy'') (Some [''nonexistent-item'']) seeded)) \<noteq> 400 \<and>
   issued (snd (get_recipes (Some ''happy'') (Some [''nonexistent-item'']) seeded)) \<noteq> issued seeded"
  using rejects_incomplete_requests [of None "Some [''cheese'']" seeded]
    rejects_incomplete_requests [of "Some []" "Some [''cheese'']" seeded]
    rejects_incomplete_requests [of "Some ''happy''" None seeded]
    rejects_incomplete_requests [of "Some ''happy''" "Some []" seeded]
    rejects_incomplete_requests [of "Some ''happy''" "Some [''nonexistent-item'']" seeded]
  by auto

subsection \<open>Determinism\<close>

text \<open>
  Claim C7. The handler leaves the documents of the store as they were, and its response
  depends on the request, the documents and whether the store can be reached, and on
  nothing else: a second invocation with the same request, run after the first, gives
  the same response.
\<close>

theorem same_request_same_answer:
  "docs (snd (get_recipes mood wanted s)) = docs s \<and>
   reachable (snd (get_recipes mood wanted s)) = reachable s \<and>
   fst (get_recipes mood wanted (snd (get_recipes mood wanted s))) =
     fst (get_recipes mood wanted s) \<and>
   (docs s' = docs s \<and> reachable s' = reachable s \<longrightarrow>
      fst (get_recipes mood wanted s') = fst (get_recipes mood wanted s))"
  using get_recipes_frame [of mood wanted s]
    get_recipes_depends [of "snd (get_recipes mood wanted s)" s mood wanted]
    get_recipes_depends [of s' s mood wanted]
  by simp

text \<open>
  The same request twice in a row against the seeded store; the log of queries is the
  only thing the first invocation changed.
\<close>

theorem same_request_same_answer_witness:
  "fst (get_recipes (Some ''excited'') (Some [''rice'', ''mushroom''])
          (snd (get_recipes (Some ''excited'') (Some [''rice'', ''mushroom'']) seeded))) =
     ok [scoreRecipe [''rice'', ''mushroom''] romantic_mushroom_risotto,
         scoreRecipe [''rice'', ''mushroom''] love_filled_stuffed_bell_peppers,
         scoreRecipe [''rice'', ''mushroom''] rainbow_veggie_stir_fry] \<and>
   fst (get_recipes (Some ''excited'') (Some [''rice'', ''mushroom'']) seeded) =
     ok [scoreRecipe [''rice'', ''mushroom''] romantic_mushroom_risotto,
         scoreRecipe [''rice'', ''mushroom''] love_filled_stuffed_bell_peppers,
         scoreRecipe [''rice'', ''mushroom''] rainbow_veggie_stir_fry] \<and>
   issued (snd (get_recipes (Some ''excited'') (Some [''rice'', ''mushroom'']) seeded)) \<noteq>
     issued seeded"
  using same_request_same_answer [of "Some ''excited''" "Some [''rice'', ''mushroom'']" seeded seeded]
  by (simp add: seeded_excited) (simp add: seeded_def)

subsection \<open>The stressed example\<close>

text \<open>
  Claim C8. Against the seeded catalog, the mood \<open>stressed\<close> with pasta, cheese, milk,
  butter and flour is answered by the primary query alone. Comfort Mac and Cheese is
  tagged \<open>stressed\<close>, all of its ingredients match, and it is first in the response
  with \<open>matchScore\<close> 5.
\<close>

theorem stressed_example:
  "get_recipes (Some ''stressed'') (Some [''pasta'', ''cheese'', ''milk'', ''butter'', ''flour'']) seeded =
     (ok [scoreRecipe [''pasta'', ''cheese'', ''milk'', ''butter'', ''flour''] comfort_mac_and_cheese,
          scoreRecipe [''pasta'', ''cheese'', ''milk'', ''butter'', ''flour''] comforting_potato_soup,
          scoreRecipe [''pasta'', ''cheese'', ''milk'', ''butter'', ''flour''] soothing_tomato_basil_soup],
      seeded\<lparr>issued := [(query ''stressed'' [''pasta'', ''cheese'', ''milk'', ''butter'', ''flour''], 10)]\<rparr>) \<and>
   matches (query ''stressed'' [''pasta'', ''cheese'', ''milk'', ''butter'', ''flour''])
     comfort_mac_and_cheese \<and>
   name (scoreRecipe [''pasta'', ''cheese'', ''milk'', ''butter'', ''flour''] comfort_mac_and_cheese) =
     ''Comfort Mac and Cheese'' \<and>
   moodTags comfort_mac_and_cheese = [''sad'', ''stressed''] \<and>
   matchingIngredients
     (scoreRecipe [''pasta'', ''cheese'', ''milk'', ''butter'', ''flour''] comfort_mac_and_cheese) =
     ingredients comfort_mac_and_cheese \<and>
   matchScore
     (scoreRecipe [''pasta'', ''cheese'', ''milk'', ''butter'', ''flour''] comfort_mac_and_cheese) = 5"
  by (simp add: seeded_stressed matches_query scoreRecipe_fields lower_examples
      catalog_name catalog_moodTags catalog_ingredients)

subsection \<open>No recipe of score zero\<close>

text \<open>
  Claim C9. Every recipe in a returned list has \<open>matchScore\<close> at least 1.
\<close>

theorem returned_score_positive:
  assumes "fst (get_recipes mood wanted s) = ok rs" and "x \<in> set rs"
  shows "1 \<le> matchScore x"
proof -
  from assms obtain ws r where
    h: "set (ingredients r) \<inter> set ws \<noteq> {}" "x = scoreRecipe ws r"
    by (rule returned_is_scored)
  from h(1) have "filter (\<lambda>i. i \<in> set ws) (ingredients r) \<noteq> []"
    by (auto simp: filter_empty_conv)
  then have "1 \<le> length (filter (\<lambda>i. i \<in> set ws) (ingredients r))"
    by (cases "filter (\<lambda>i. i \<in> set ws) (ingredients r)") simp_all
  with h(2) show ?thesis by (simp add: scoreRecipe_fields)
qed

text \<open>
  The last recipe of the stressed example matches on milk alone.
\<close>

theorem returned_score_positive_witness:
  "fst (get_recipes (Some ''stressed'') (Some [''pasta'', ''cheese'', ''milk'', ''butter'', ''flour'']) seeded) =
     ok [scoreRecipe [''pasta'', ''cheese'', ''milk'', ''butter'', ''flour''] comfort_mac_and_cheese,
         scoreRecipe [''pasta'', ''cheese'', ''milk'', ''butter'', ''flour''] comforting_potato_soup,
         scoreRecipe [''pasta'', ''cheese'', ''milk'', ''butter'', ''flour''] soothing_tomato_basil_soup] \<and>
   1 \<le> matchScore (scoreRecipe [''pasta'', ''cheese'', ''milk'', ''butter'', ''flour''] soothing_tomato_basil_soup)"
proof -
  have e: "fst (get_recipes (Some ''stressed'') (Some [''pasta'', ''cheese'', ''milk'', ''butter'', ''flour'']) seeded) =
     ok [scoreRecipe [''pasta'', ''cheese'', ''milk'', ''butter'', ''flour''] comfort_mac_and_cheese,
         scoreRecipe [''pasta'', ''cheese'', ''milk'', ''butter'', ''flour''] comforting_potato_soup,
         scoreRecipe [''pasta'', ''cheese'', ''milk'', ''butter'', ''flour''] soothing_tomato_basil_soup]"
    by (simp add: seeded_stressed)
  from returned_score_positive [OF e,
      of "scoreRecipe [''pasta'', ''cheese'', ''milk'', ''butter'', ''flour''] soothing_tomato_basil_soup"]
  show ?thesis using e by simp
qed

subsection \<open>Letter case\<close>

text \<open>
  Claim C10. Two moods with the same lowercase form are answered alike, and the primary
  query compares the lowercased mood with the stored tags. Ingredients are compared as
  they are written: a requested ingredient that is not, letter for letter, among a
  recipe's ingredients changes neither whether the recipe matches a query nor its
  \<open>matchScore\<close> and \<open>matchingIngredients\<close>.
\<close>

theorem only_mood_is_normalised:
  "(toLowerCase m = toLowerCase m' \<longrightarrow>
      get_recipes (Some m) wanted s = get_recipes (Some m') wanted s) \<and>
   (matches (query m ws) r \<longrightarrow> toLowerCase m \<in> set (moodTags r)) \<and>
   (x \<notin> set (ingredients r) \<longrightarrow>
      matches (query m ws) r = matches (query m (removeAll x ws)) r \<and>
      matches (broadQuery ws) r = matches (broadQuery (removeAll x ws)) r \<and>
      scoreRecipe ws r = scoreRecipe (removeAll x ws) r \<and>
      x \<notin> set (matchingIngredients (scoreRecipe ws r)))"
proof -
  have "set (ingredients r) \<inter> set (removeAll x ws) = set (ingredients r) \<inter> set ws"
    if "x \<notin> set (ingredients r)"
    using that by auto
  moreover have "scoreRecipe ws r = scoreRecipe (removeAll x ws) r" if "x \<notin> set (ingredients r)"
    using filter_removeAll_absent [OF that, of ws]
    by (simp add: scoreRecipe_def array_includes_def)
  ultimately show ?thesis
    using mood_only_lowercased [of m m' wanted s]
    by (auto simp: matches_query matches_broadQuery scoreRecipe_fields)
qed

text \<open>
  \<open>Cheese\<close> against the avocado toast, which holds \<open>cheese\<close>: no match, and only
  bread is counted.
\<close>

theorem only_mood_is_normalised_witness:
  "get_recipes (Some ''HAPPY'') (Some [''cheese'']) seeded =
     get_recipes (Some ''Happy'') (Some [''cheese'']) seeded \<and>
   toLowerCase ''Cheese'' \<in> set (ingredients quick_avocado_toast) \<and>
   ''Cheese'' \<notin> set (ingredients quick_avocado_toast) \<and>
   \<not> matches (broadQuery [''Cheese'']) quick_avocado_toast \<and>
   matchScore (scoreRecipe [''Cheese'', ''bread''] quick_avocado_toast) = 1 \<and>
   matchingIngredients (scoreRecipe [''Cheese'', ''bread''] quick_avocado_toast) = [''bread'']"
  using only_mood_is_normalised [of "''HAPPY''" "''Happy''" "Some [''cheese'']" seeded
      "[''Cheese'']" quick_avocado_toast "''Cheese''"]
    only_mood_is_normalised [of "''HAPPY''" "''Happy''" "Some [''cheese'']" seeded
      "[''Cheese'', ''bread'']" quick_avocado_toast "''Cheese''"]
  by (simp add: lower_examples catalog_ingredients matches_broadQuery scoreRecipe_fields)

end
